theory Spec2Isabelle
  imports Main
begin

section \<open>Python values used by the task handlers\<close>

text \<open>
  A Python \<open>str\<close> is a sequence of Unicode code points, so \<open>len\<close> and slicing count
  code points: a string is a list of naturals. \<open>py_str\<close> turns an ASCII literal into
  such a list.
\<close>

type_synonym str = "nat list"

definition py_str :: "string \<Rightarrow> str" where
  "py_str cs = map of_char cs"

text \<open>
  \<open>str.isspace\<close> for one code point: the characters \<open>str.strip()\<close> removes.
\<close>

definition isspace :: "nat \<Rightarrow> bool" where
  "isspace c \<longleftrightarrow>
     (9 \<le> c \<and> c \<le> 13) \<or> (28 \<le> c \<and> c \<le> 32) \<or> c = 133 \<or> c = 160 \<or> c = 5760 \<or>
     (8192 \<le> c \<and> c \<le> 8202) \<or> c = 8232 \<or> c = 8233 \<or> c = 8239 \<or> c = 8287 \<or> c = 12288"

definition strip :: "str \<Rightarrow> str" where
  "strip s = rev (dropWhile isspace (rev (dropWhile isspace s)))"

text \<open>
  \<open>str.lower()\<close>. The keywords the handlers look for are ASCII, so what matters is
  which code points lower to ASCII letters: \<open>A\<close> to \<open>Z\<close>, U+0130 (which lowers to
  \<open>i\<close> followed by U+0307) and U+212A (the Kelvin sign, which lowers to \<open>k\<close>). Every
  other code point lowers to code points outside ASCII and is kept as it is here.
\<close>

definition lower_char :: "nat \<Rightarrow> str" where
  "lower_char c =
     (if 65 \<le> c \<and> c \<le> 90 then [c + 32]
      else if c = 304 then [105, 775]
      else if c = 8490 then [107]
      else [c])"

definition lower :: "str \<Rightarrow> str" where
  "lower s = concat (map lower_char s)"

text \<open>\<open>kw in s\<close> on strings: \<open>kw\<close> occurs in \<open>s\<close> as a contiguous block.\<close>

fun startswith :: "str \<Rightarrow> str \<Rightarrow> bool" where
  "startswith s [] = True"
| "startswith [] (k # ks) = False"
| "startswith (c # cs) (k # ks) = (c = k \<and> startswith cs ks)"

fun str_in :: "str \<Rightarrow> str \<Rightarrow> bool" where
  "str_in kw [] = (kw = [])"
| "str_in kw (c # cs) = (startswith (c # cs) kw \<or> str_in kw cs)"

text \<open>
  The slice \<open>xs[:k]\<close>: a negative \<open>k\<close> counts from the end, and the bounds are
  clamped to the list.
\<close>

definition slice_to :: "'a list \<Rightarrow> int \<Rightarrow> 'a list" where
  "slice_to xs k = (if k < 0 then take (nat (int (length xs) + k)) xs else take (nat k) xs)"

text \<open>
  What a handler can raise: the \<open>HTTPException\<close>s the handlers construct (status code
  and detail), the 422 response FastAPI gives for a body that fails the pydantic
  model, the driver's error on a duplicate \<open>_id\<close>, and Python's \<open>IndexError\<close> and
  \<open>TypeError\<close>. The last two are not caught anywhere and end the request with a 500.
\<close>

datatype error =
    HTTPException nat string
  | RequestValidationError
  | DuplicateKeyError
  | IndexError
  | TypeError

text \<open>
  The subscript \<open>xs[i]\<close>: a negative index counts from the end, an index outside the
  list raises \<open>IndexError\<close>.
\<close>

definition getitem :: "'a list \<Rightarrow> int \<Rightarrow> error + 'a" where
  "getitem xs i =
     (if 0 \<le> i \<and> i < int (length xs) then Inr (xs ! nat i)
      else if i < 0 \<and> - int (length xs) \<le> i then Inr (xs ! nat (int (length xs) + i))
      else Inl IndexError)"

text \<open>A reading of the clock (\<open>datetime.now(timezone.utc)\<close>).\<close>

type_synonym datetime = nat

section \<open>The data model (schemas.py and the pydantic models of main.py)\<close>

text \<open>
  A subtask, as a \<open>SubTaskModel\<close> of a request and as a stored sub-document. In a
  request, \<open>None\<close> is a field the request did not set; in a sub-document, \<open>None\<close> is a
  key the sub-document does not hold. The fields are not \<open>Optional\<close>, so a field that
  is set is never \<open>null\<close>. \<open>model_dump()\<close> fills the unset fields with their defaults
  (\<open>with_defaults\<close>); \<open>model_dump(exclude_unset=True)\<close> leaves them out, in nested
  models too, and the handlers read such a sub-document with \<open>.get(key, default)\<close>.
\<close>

record SubTask =
  emoji :: "str option"
  title :: str
  estimatedMinutes :: "int option"
  completed :: "bool option"

definition with_defaults :: "SubTask \<Rightarrow> SubTask" where
  "with_defaults s =
     \<lparr>SubTask.emoji = Some (case SubTask.emoji s of None \<Rightarrow> [9989] | Some e \<Rightarrow> e),
      SubTask.title = SubTask.title s,
      SubTask.estimatedMinutes =
        Some (case SubTask.estimatedMinutes s of None \<Rightarrow> 5 | Some m \<Rightarrow> m),
      SubTask.completed = Some (case SubTask.completed s of None \<Rightarrow> False | Some b \<Rightarrow> b)\<rparr>"

text \<open>\<open>s.get("completed", False)\<close> and \<open>s.get("estimatedMinutes", 5)\<close>.\<close>

definition get_completed :: "SubTask \<Rightarrow> bool" where
  "get_completed s = (case SubTask.completed s of None \<Rightarrow> False | Some b \<Rightarrow> b)"

definition get_estimatedMinutes :: "SubTask \<Rightarrow> int" where
  "get_estimatedMinutes s = (case SubTask.estimatedMinutes s of None \<Rightarrow> 5 | Some m \<Rightarrow> m)"

datatype timer_status = idle | running | paused

text \<open>
  \<open>startedAt\<close> holds the ISO rendering of a clock reading; the rendering is one to
  one, so the reading itself stands for it.
\<close>

record TimerSession =
  status :: timer_status
  startedAt :: "datetime option"
  elapsedSeconds :: int
  currentSubtaskIndex :: "int option"

text \<open>
  \<open>TaskCreate\<close>, with the defaults of its unset fields already in place (the handler
  dumps all fields). None of its fields is \<open>Optional\<close>.
\<close>

record TaskCreate =
  userId :: str
  title :: str
  description :: str
  estimatedMinutes :: int
  emoji :: str
  voiceReminder :: bool
  subtasks :: "SubTask list"

text \<open>
  \<open>TaskUpdate\<close>: every field is \<open>Optional\<close> with default \<open>None\<close>, and the handler dumps
  the fields the request set. So a field has three states: \<open>None\<close>, the request did
  not set it; \<open>Some None\<close>, the request set it to \<open>null\<close>; \<open>Some (Some v)\<close>, the request
  set it to \<open>v\<close>. The same shape serves for the \<open>updates\<close> dictionaries the handlers
  pass to \<open>$set\<close>: \<open>None\<close> is a key the dictionary does not hold, \<open>Some x\<close> a key with
  the value \<open>x\<close>.
\<close>

record TaskUpdate =
  title :: "str option option"
  description :: "str option option"
  estimatedMinutes :: "int option option"
  emoji :: "str option option"
  completed :: "bool option option"
  voiceReminder :: "bool option option"
  subtasks :: "SubTask list option option"

record AIHistoryMove =
  taskId :: str

record AIEditPayload =
  taskId :: str
  prompt :: str

text \<open>
  A snapshot holds the editable fields of a task; a task document holds them and the
  rest, so the task record extends the snapshot record. Every document of the
  collection is inserted by \<open>create_task\<close> and changed by \<open>$set\<close> only, so it holds
  every key. The seven fields \<open>update_task\<close> can write can hold \<open>null\<close> (\<open>None\<close> here),
  although the \<open>Task\<close> schema of schemas.py gives them the types \<open>str\<close>, \<open>int\<close>, \<open>bool\<close>
  and list; the others cannot.
\<close>

record Snapshot =
  title :: "str option"
  description :: "str option"
  estimatedMinutes :: "int option"
  emoji :: "str option"
  subtasks :: "SubTask list option"

record Task = Snapshot +
  userId :: str
  completed :: "bool option"
  voiceReminder :: "bool option"
  timerSession :: TimerSession
  aiHistory :: "Snapshot list"
  aiCursor :: int
  created_at :: datetime
  updated_at :: datetime

subsection \<open>Validation done by the pydantic models\<close>

definition SubTask_valid :: "SubTask \<Rightarrow> bool" where
  "SubTask_valid s \<longleftrightarrow>
     (case SubTask.estimatedMinutes s of None \<Rightarrow> True | Some m \<Rightarrow> 1 \<le> m \<and> m \<le> 480)"

definition TaskCreate_valid :: "TaskCreate \<Rightarrow> bool" where
  "TaskCreate_valid p \<longleftrightarrow>
     1 \<le> TaskCreate.estimatedMinutes p \<and> TaskCreate.estimatedMinutes p \<le> 1440 \<and>
     list_all SubTask_valid (TaskCreate.subtasks p)"

definition TaskUpdate_valid :: "TaskUpdate \<Rightarrow> bool" where
  "TaskUpdate_valid p \<longleftrightarrow>
     (case TaskUpdate.estimatedMinutes p of
        Some (Some m) \<Rightarrow> 1 \<le> m \<and> m \<le> 1440
      | _ \<Rightarrow> True) \<and>
     (case TaskUpdate.subtasks p of
        Some (Some ss) \<Rightarrow> list_all SubTask_valid ss
      | _ \<Rightarrow> True)"

section \<open>The document store\<close>

text \<open>
  An \<open>ObjectId\<close> is a sequence of bytes. Its constructor takes a string of 24
  characters that \<open>bytes.fromhex\<close> accepts: pairs of hexadecimal digits, with ASCII
  white space allowed before each pair and at the end. Identifiers the driver
  generates have 12 bytes; a string with white space gives fewer. \<open>oid\<close> turns the
  constructor's exception into a 400. \<open>str(_id)\<close> is the hexadecimal rendering
  \<open>str_of_oid\<close>.
\<close>

type_synonym ObjectId = "nat list"

definition ascii_space :: "nat \<Rightarrow> bool" where
  "ascii_space c \<longleftrightarrow> c = 32 \<or> (9 \<le> c \<and> c \<le> 13)"

definition ishex :: "nat \<Rightarrow> bool" where
  "ishex c \<longleftrightarrow> (48 \<le> c \<and> c \<le> 57) \<or> (65 \<le> c \<and> c \<le> 70) \<or> (97 \<le> c \<and> c \<le> 102)"

definition hexval :: "nat \<Rightarrow> nat" where
  "hexval c = (if c \<le> 57 then c - 48 else if c \<le> 70 then c - 55 else c - 87)"

fun fromhex :: "str \<Rightarrow> nat list option" where
  "fromhex [] = Some []"
| "fromhex [c] = (if ascii_space c then Some [] else None)"
| "fromhex (c # d # cs) =
     (if ascii_space c then fromhex (d # cs)
      else if ishex c \<and> ishex d then
        (case fromhex cs of None \<Rightarrow> None | Some bs \<Rightarrow> Some ((16 * hexval c + hexval d) # bs))
      else None)"

definition oid :: "str \<Rightarrow> error + ObjectId" where
  "oid id_str =
     (if length id_str = 24 then
        (case fromhex id_str of
           None \<Rightarrow> Inl (HTTPException 400 ''Invalid id'')
         | Some bs \<Rightarrow> Inr bs)
      else Inl (HTTPException 400 ''Invalid id''))"

definition hexdigit :: "nat \<Rightarrow> nat" where
  "hexdigit n = (if n < 10 then 48 + n else 87 + n)"

definition str_of_oid :: "ObjectId \<Rightarrow> str" where
  "str_of_oid bs = concat (map (\<lambda>b. [hexdigit (b div 16), hexdigit (b mod 16)]) bs)"

text \<open>The collection \<open>db["task"]\<close>: documents by \<open>_id\<close>.\<close>

type_synonym collection = "ObjectId \<rightharpoonup> Task"

definition find_one :: "collection \<Rightarrow> ObjectId \<Rightarrow> (ObjectId \<times> Task) option" where
  "find_one db k = (case db k of None \<Rightarrow> None | Some t \<Rightarrow> Some (k, t))"

definition insert_one :: "collection \<Rightarrow> ObjectId \<Rightarrow> Task \<Rightarrow> error + collection" where
  "insert_one db k t = (case db k of None \<Rightarrow> Inr (db(k \<mapsto> t)) | Some _ \<Rightarrow> Inl DuplicateKeyError)"

text \<open>
  \<open>update_one(filter, {"$set": ...})\<close> without upsert: the fields are written to the
  matching document, and nothing happens when there is none.
\<close>

definition update_one :: "collection \<Rightarrow> ObjectId \<Rightarrow> (Task \<Rightarrow> Task) \<Rightarrow> collection" where
  "update_one db k f = (case db k of None \<Rightarrow> db | Some t \<Rightarrow> db(k \<mapsto> f t))"

text \<open>
  \<open>serialize\<close> keeps \<open>None\<close>, and in a document replaces \<open>_id\<close> by the string \<open>id\<close>
  and renders the timestamps: the response is the identifier's string with the
  document.
\<close>

type_synonym response = "(str \<times> Task) option"

definition serialize :: "(ObjectId \<times> Task) option \<Rightarrow> response" where
  "serialize doc = (case doc of None \<Rightarrow> None | Some (k, t) \<Rightarrow> Some (str_of_oid k, t))"

text \<open>
  \<open>$set\<close> of an \<open>updates\<close> dictionary: the keys it holds are written, with the values
  they have, \<open>null\<close> included.
\<close>

definition set_fields :: "TaskUpdate \<Rightarrow> Task \<Rightarrow> Task" where
  "set_fields u t =
     t\<lparr>title := (case TaskUpdate.title u of None \<Rightarrow> title t | Some v \<Rightarrow> v),
       description := (case TaskUpdate.description u of None \<Rightarrow> description t | Some v \<Rightarrow> v),
       estimatedMinutes :=
         (case TaskUpdate.estimatedMinutes u of None \<Rightarrow> estimatedMinutes t | Some v \<Rightarrow> v),
       emoji := (case TaskUpdate.emoji u of None \<Rightarrow> emoji t | Some v \<Rightarrow> v),
       completed := (case TaskUpdate.completed u of None \<Rightarrow> completed t | Some v \<Rightarrow> v),
       voiceReminder :=
         (case TaskUpdate.voiceReminder u of None \<Rightarrow> voiceReminder t | Some v \<Rightarrow> v),
       subtasks := (case TaskUpdate.subtasks u of None \<Rightarrow> subtasks t | Some v \<Rightarrow> v)\<rparr>"

definition no_updates :: TaskUpdate where
  "no_updates =
     \<lparr>TaskUpdate.title = None, TaskUpdate.description = None,
      TaskUpdate.estimatedMinutes = None, TaskUpdate.emoji = None,
      TaskUpdate.completed = None, TaskUpdate.voiceReminder = None,
      TaskUpdate.subtasks = None\<rparr>"

text \<open>\<open>not updates\<close>: the dictionary holds no key.\<close>

definition is_empty :: "TaskUpdate \<Rightarrow> bool" where
  "is_empty u \<longleftrightarrow>
     TaskUpdate.title u = None \<and> TaskUpdate.description u = None \<and>
     TaskUpdate.estimatedMinutes u = None \<and> TaskUpdate.emoji u = None \<and>
     TaskUpdate.completed u = None \<and> TaskUpdate.voiceReminder u = None \<and>
     TaskUpdate.subtasks u = None"

section \<open>Task handlers\<close>

text \<open>
  Every handler takes the collection and the clock readings it makes, and returns the
  collection it leaves with what it returns or raises.
\<close>

definition reset_timer :: TimerSession where
  "reset_timer =
     \<lparr>status = idle, startedAt = None, elapsedSeconds = 0, currentSubtaskIndex = None\<rparr>"

text \<open>
  \<open>create_task\<close> (main.py, lines 180 to 185). FastAPI checks the body against
  \<open>TaskCreate\<close> before the handler runs. \<open>new_id\<close> is the \<open>_id\<close> the driver gives the new
  document, \<open>now1\<close> and \<open>now2\<close> are the two clock readings of the handler.
\<close>

definition create_task ::
  "collection \<Rightarrow> ObjectId \<Rightarrow> datetime \<Rightarrow> datetime \<Rightarrow> TaskCreate \<Rightarrow>
   collection \<times> (error + response)" where
  "create_task db new_id now1 now2 payload =
     (if \<not> TaskCreate_valid payload then (db, Inl RequestValidationError)
      else
        let data =
          \<lparr>title = Some (TaskCreate.title payload),
           description = Some (TaskCreate.description payload),
           estimatedMinutes = Some (TaskCreate.estimatedMinutes payload),
           emoji = Some (TaskCreate.emoji payload),
           subtasks = Some (map with_defaults (TaskCreate.subtasks payload)),
           userId = TaskCreate.userId payload,
           completed = Some False,
           voiceReminder = Some (TaskCreate.voiceReminder payload),
           timerSession = reset_timer,
           aiHistory = [],
           aiCursor = - 1,
           created_at = now1,
           updated_at = now2\<rparr>
        in case insert_one db new_id data of
             Inl e \<Rightarrow> (db, Inl e)
           | Inr db' \<Rightarrow> (db', Inr (serialize (find_one db' new_id))))"

text \<open>
  \<open>update_task\<close> (main.py, lines 188 to 195): \<open>updates\<close> holds the fields the request
  set, those set to \<open>null\<close> too; when it is empty the handler returns what \<open>find_one\<close>
  gives, otherwise it adds \<open>updated_at\<close>, writes, and returns what \<open>find_one\<close> gives
  afterwards.
\<close>

definition update_task ::
  "collection \<Rightarrow> datetime \<Rightarrow> str \<Rightarrow> TaskUpdate \<Rightarrow> collection \<times> (error + response)" where
  "update_task db now task_id payload =
     (if \<not> TaskUpdate_valid payload then (db, Inl RequestValidationError)
      else
        let updates = payload in
        if is_empty updates then
          (case oid task_id of
             Inl e \<Rightarrow> (db, Inl e)
           | Inr k \<Rightarrow> (db, Inr (serialize (find_one db k))))
        else
          (case oid task_id of
             Inl e \<Rightarrow> (db, Inl e)
           | Inr k \<Rightarrow>
               let db' = update_one db k (\<lambda>t. (set_fields updates t)\<lparr>updated_at := now\<rparr>)
               in (db', Inr (serialize (find_one db' k)))))"

text \<open>
  \<open>toggle_subtask\<close> (main.py, lines 210 to 220): the checks come before the write.
  \<open>task.get("subtasks", [])\<close> gives the stored value, since the key is there; when
  that is \<open>null\<close> and the index is not negative, \<open>len(subs)\<close> raises \<open>TypeError\<close>.
\<close>

definition toggle_subtask ::
  "collection \<Rightarrow> datetime \<Rightarrow> str \<Rightarrow> int \<Rightarrow> collection \<times> (error + response)" where
  "toggle_subtask db now task_id index =
     (case oid task_id of
        Inl e \<Rightarrow> (db, Inl e)
      | Inr k \<Rightarrow>
          (case find_one db k of
             None \<Rightarrow> (db, Inl (HTTPException 404 ''Task not found''))
           | Some (_, task) \<Rightarrow>
               if index < 0 then (db, Inl (HTTPException 400 ''Invalid subtask index''))
               else
                 (case subtasks task of
                    None \<Rightarrow> (db, Inl TypeError)
                  | Some subs \<Rightarrow>
                      if index \<ge> int (length subs) then
                        (db, Inl (HTTPException 400 ''Invalid subtask index''))
                      else
                        let s = subs ! nat index;
                            subs' = subs[nat index :=
                                      s\<lparr>SubTask.completed := Some (\<not> get_completed s)\<rparr>];
                            db' = update_one db k
                                    (\<lambda>t. t\<lparr>subtasks := Some subs', updated_at := now\<rparr>)
                        in (db', Inr (serialize (find_one db' k))))))"

subsection \<open>Timer controls\<close>

text \<open>
  \<open>timer_start\<close>, \<open>timer_pause\<close> and \<open>timer_stop\<close> (main.py, lines 225 to 241) write
  without reading the task first. The first two set single fields of the embedded
  session through dotted paths, the last replaces the session. \<open>timer_start\<close> reads the
  clock twice: \<open>now\<close> for \<open>startedAt\<close>, \<open>now2\<close> for \<open>updated_at\<close>.
\<close>

definition timer_start ::
  "collection \<Rightarrow> datetime \<Rightarrow> datetime \<Rightarrow> str \<Rightarrow> int option \<Rightarrow>
   collection \<times> (error + response)" where
  "timer_start db now now2 task_id subtaskIndex =
     (case oid task_id of
        Inl e \<Rightarrow> (db, Inl e)
      | Inr k \<Rightarrow>
          let db' = update_one db k
                (\<lambda>t. t\<lparr>timerSession :=
                          (timerSession t)\<lparr>status := running, startedAt := Some now,
                                           currentSubtaskIndex := subtaskIndex\<rparr>,
                        updated_at := now2\<rparr>)
          in (db', Inr (serialize (find_one db' k))))"

definition timer_pause ::
  "collection \<Rightarrow> datetime \<Rightarrow> str \<Rightarrow> int \<Rightarrow> collection \<times> (error + response)" where
  "timer_pause db now task_id elapsed =
     (case oid task_id of
        Inl e \<Rightarrow> (db, Inl e)
      | Inr k \<Rightarrow>
          let db' = update_one db k
                (\<lambda>t. t\<lparr>timerSession :=
                          (timerSession t)\<lparr>status := paused, elapsedSeconds := elapsed\<rparr>,
                        updated_at := now\<rparr>)
          in (db', Inr (serialize (find_one db' k))))"

definition timer_stop ::
  "collection \<Rightarrow> datetime \<Rightarrow> str \<Rightarrow> collection \<times> (error + response)" where
  "timer_stop db now task_id =
     (case oid task_id of
        Inl e \<Rightarrow> (db, Inl e)
      | Inr k \<Rightarrow>
          let db' = update_one db k
                (\<lambda>t. t\<lparr>timerSession :=
                          \<lparr>status = idle, startedAt = None, elapsedSeconds = 0,
                           currentSubtaskIndex = None\<rparr>,
                        updated_at := now\<rparr>)
          in (db', Inr (serialize (find_one db' k))))"

subsection \<open>AI edits with undo and redo\<close>

text \<open>
  The snapshot taken for undo: the five editable fields of the task, with the values
  they have.
\<close>

definition snapshot_of :: "Task \<Rightarrow> Snapshot" where
  "snapshot_of task =
     \<lparr>title = title task, description = description task,
      estimatedMinutes = estimatedMinutes task, emoji = emoji task,
      subtasks = subtasks task\<rparr>"

text \<open>\<open>{**snap}\<close> under \<open>$set\<close>: the snapshot's fields are written back.\<close>

definition restore :: "Snapshot \<Rightarrow> Task \<Rightarrow> Task" where
  "restore snap t =
     t\<lparr>title := title snap, description := description snap,
       estimatedMinutes := estimatedMinutes snap, emoji := emoji snap,
       subtasks := subtasks snap\<rparr>"

text \<open>
  The keyword rules of \<open>ai_edit_task\<close> (main.py, lines 284 to 298): \<open>p\<close> is the
  lower-cased prompt, the rules are independent \<open>if\<close>s that fill \<open>updates\<close> in order,
  and the last one applies when the others left \<open>updates\<close> empty.
  \<open>task.get("description", "")\<close> and \<open>task.get("subtasks", [])\<close> give the stored
  values, since the keys are there: on a \<open>null\<close> description \<open>len\<close> and \<open>+\<close> raise
  \<open>TypeError\<close>, on \<open>null\<close> subtasks \<open>sorted\<close> does. \<open>sorted(subs, key=...)\<close> is a stable
  sort, as is \<open>sort_key\<close>, the insertion sort of the list library. The emoji rule sets
  U+2728.
\<close>

definition derive_updates :: "Task \<Rightarrow> str \<Rightarrow> error + TaskUpdate" where
  "derive_updates task p =
     (case
        (if str_in (py_str ''simpler'') p \<or> str_in (py_str ''shorter'') p then
           (case description task of
              None \<Rightarrow> Inl TypeError
            | Some d \<Rightarrow>
                Inr (no_updates\<lparr>TaskUpdate.description :=
                       Some (Some (if length d > 120 then take 120 d @ py_str ''...'' else d))\<rparr>))
         else Inr no_updates)
      of Inl e \<Rightarrow> Inl e
       | Inr u1 \<Rightarrow>
     (case
        (if str_in (py_str ''more details'') p \<or> str_in (py_str ''expand'') p then
           (case description task of
              None \<Rightarrow> Inl TypeError
            | Some d \<Rightarrow>
                Inr (u1\<lparr>TaskUpdate.description :=
                       Some (Some (strip (d @ [10, 10] @
                         py_str ''More specifics: steps, tools, and a clear finish line.'')))\<rparr>))
         else Inr u1)
      of Inl e \<Rightarrow> Inl e
       | Inr u2 \<Rightarrow>
     (case
        (if str_in (py_str ''prioritize'') p then
           (case subtasks task of
              None \<Rightarrow> Inl TypeError
            | Some subs \<Rightarrow>
                Inr (u2\<lparr>TaskUpdate.subtasks :=
                       Some (Some (sort_key get_estimatedMinutes subs))\<rparr>))
         else Inr u2)
      of Inl e \<Rightarrow> Inl e
       | Inr u3 \<Rightarrow>
          let u4 = (if str_in (py_str ''emoji'') p
                    then u3\<lparr>TaskUpdate.emoji := Some (Some [10024])\<rparr> else u3)
          in if is_empty u4 then
               (case description task of
                  None \<Rightarrow> Inl TypeError
                | Some d \<Rightarrow>
                    Inr (u4\<lparr>TaskUpdate.description :=
                           Some (Some (strip (d @ [10, 10] @ py_str ''Tuned for clarity.'')))\<rparr>))
             else Inr u4)))"

text \<open>
  \<open>ai_edit_task\<close> (main.py, lines 272 to 304). The snapshot and the new history are
  built first; an exception of the keyword rules ends the call before the write.
\<close>

definition ai_edit_task ::
  "collection \<Rightarrow> datetime \<Rightarrow> AIEditPayload \<Rightarrow> collection \<times> (error + response)" where
  "ai_edit_task db now payload =
     (case oid (AIEditPayload.taskId payload) of
        Inl e \<Rightarrow> (db, Inl e)
      | Inr k \<Rightarrow>
          (case find_one db k of
             None \<Rightarrow> (db, Inl (HTTPException 404 ''Task not found''))
           | Some (_, task) \<Rightarrow>
               let snapshot = snapshot_of task;
                   history = aiHistory task;
                   cursor = aiCursor task;
                   new_history = slice_to history (cursor + 1) @ [snapshot]
               in case derive_updates task (lower (prompt payload)) of
                    Inl e \<Rightarrow> (db, Inl e)
                  | Inr updates \<Rightarrow>
                      let db' = update_one db k
                            (\<lambda>t. (set_fields updates t)
                               \<lparr>aiHistory := new_history,
                                aiCursor := int (length new_history) - 1,
                                updated_at := now\<rparr>)
                      in (db', Inr (serialize (find_one db' k)))))"

text \<open>
  \<open>ai_undo\<close> and \<open>ai_redo\<close> (main.py, lines 311 to 336). A snapshot holds none of
  \<open>aiHistory\<close>, \<open>aiCursor\<close> and \<open>updated_at\<close>, so \<open>{**snap, "aiCursor": ..., "updated_at":
  ...}\<close> writes the snapshot's fields first and the two others after them.
\<close>

definition ai_undo ::
  "collection \<Rightarrow> datetime \<Rightarrow> AIHistoryMove \<Rightarrow> collection \<times> (error + response)" where
  "ai_undo db now payload =
     (case oid (AIHistoryMove.taskId payload) of
        Inl e \<Rightarrow> (db, Inl e)
      | Inr k \<Rightarrow>
          (case find_one db k of
             None \<Rightarrow> (db, Inl (HTTPException 404 ''Task not found''))
           | Some (_, task) \<Rightarrow>
               let cursor = aiCursor task;
                   history = aiHistory task
               in if cursor < 0 then (db, Inr (serialize (Some (k, task))))
                  else
                    (case getitem history cursor of
                       Inl e \<Rightarrow> (db, Inl e)
                     | Inr snap \<Rightarrow>
                         let db' = update_one db k
                               (\<lambda>t. (restore snap t)\<lparr>aiCursor := cursor - 1, updated_at := now\<rparr>)
                         in (db', Inr (serialize (find_one db' k))))))"

definition ai_redo ::
  "collection \<Rightarrow> datetime \<Rightarrow> AIHistoryMove \<Rightarrow> collection \<times> (error + response)" where
  "ai_redo db now payload =
     (case oid (AIHistoryMove.taskId payload) of
        Inl e \<Rightarrow> (db, Inl e)
      | Inr k \<Rightarrow>
          (case find_one db k of
             None \<Rightarrow> (db, Inl (HTTPException 404 ''Task not found''))
           | Some (_, task) \<Rightarrow>
               let cursor = aiCursor task;
                   history = aiHistory task
               in if cursor + 1 \<ge> int (length history) then (db, Inr (serialize (Some (k, task))))
                  else
                    (case getitem history (cursor + 1) of
                       Inl e \<Rightarrow> (db, Inl e)
                     | Inr snap \<Rightarrow>
                         let db' = update_one db k
                               (\<lambda>t. (restore snap t)\<lparr>aiCursor := cursor + 1, updated_at := now\<rparr>)
                         in (db', Inr (serialize (find_one db' k))))))"

section \<open>Names of the specification, runs of operations, sample data\<close>

text \<open>The typed failures of the specification, as the handlers raise them.\<close>

abbreviation NotFoundError :: error where
  "NotFoundError \<equiv> HTTPException 404 ''Task not found''"

abbreviation OutOfRangeError :: error where
  "OutOfRangeError \<equiv> HTTPException 400 ''Invalid subtask index''"

text \<open>
  A run of the history operations on one task: each operation comes with the clock
  reading of its call, and the run hands the collection one call leaves to the next
  call, whatever the call returned.
\<close>

datatype op = Edit str | Undo | Redo

fun step :: "collection \<Rightarrow> str \<Rightarrow> op \<times> datetime \<Rightarrow> collection" where
  "step db task_id (Edit p, now) =
     fst (ai_edit_task db now \<lparr>AIEditPayload.taskId = task_id, prompt = p\<rparr>)"
| "step db task_id (Undo, now) = fst (ai_undo db now \<lparr>AIHistoryMove.taskId = task_id\<rparr>)"
| "step db task_id (Redo, now) = fst (ai_redo db now \<lparr>AIHistoryMove.taskId = task_id\<rparr>)"

fun run :: "collection \<Rightarrow> str \<Rightarrow> (op \<times> datetime) list \<Rightarrow> collection" where
  "run db task_id [] = db"
| "run db task_id (x # xs) = run (step db task_id x) task_id xs"

text \<open>The lower-cased prompt \<open>p\<close> holds none of the keywords of \<open>ai_edit_task\<close>.\<close>

definition no_keyword :: "str \<Rightarrow> bool" where
  "no_keyword p \<longleftrightarrow>
     \<not> (str_in (py_str ''simpler'') p \<or> str_in (py_str ''shorter'') p \<or>
        str_in (py_str ''more details'') p \<or> str_in (py_str ''expand'') p \<or>
        str_in (py_str ''prioritize'') p \<or> str_in (py_str ''emoji'') p)"

text \<open>The invariant of the history cursor.\<close>

definition cursor_in_range :: "Task \<Rightarrow> bool" where
  "cursor_in_range t \<longleftrightarrow> - 1 \<le> aiCursor t \<and> aiCursor t \<le> int (length (aiHistory t)) - 1"

text \<open>
  A task whose description and subtasks are as the \<open>Task\<close> schema types them: not
  \<open>null\<close>.
\<close>

definition typed_as_schema :: "Task \<Rightarrow> bool" where
  "typed_as_schema t \<longleftrightarrow> description t \<noteq> None \<and> subtasks t \<noteq> None"

text \<open>Sample data for the concrete instances below.\<close>

definition tid0 :: str where
  "tid0 = py_str ''507f1f77bcf86cd799439011''"

definition key0 :: ObjectId where
  "key0 = [80, 127, 31, 119, 188, 248, 108, 215, 153, 67, 144, 17]"

definition sub0 :: "int \<Rightarrow> SubTask" where
  "sub0 m =
     \<lparr>SubTask.emoji = Some [9989], SubTask.title = py_str ''step'',
      SubTask.estimatedMinutes = Some m, SubTask.completed = Some False\<rparr>"

definition task0 :: Task where
  "task0 =
     \<lparr>title = Some (py_str ''Write report''), description = Some (py_str ''Draft it''),
      estimatedMinutes = Some 15, emoji = Some [129504],
      subtasks = Some [sub0 20, sub0 5, sub0 10],
      userId = py_str ''u1'', completed = Some False, voiceReminder = Some False,
      timerSession = reset_timer, aiHistory = [], aiCursor = - 1,
      created_at = 1, updated_at = 1\<rparr>"

definition payload0 :: TaskCreate where
  "payload0 =
     \<lparr>TaskCreate.userId = py_str ''u1'', TaskCreate.title = py_str ''Write report'',
      TaskCreate.description = py_str ''Draft it'', TaskCreate.estimatedMinutes = 15,
      TaskCreate.emoji = [129504], TaskCreate.voiceReminder = False,
      TaskCreate.subtasks = [sub0 20, sub0 5, sub0 10]\<rparr>"

definition db0 :: collection where
  "db0 = Map.empty(key0 \<mapsto> task0)"

text \<open>
  A task in the middle of its history: two snapshots and the cursor on the first, so
  that both undo and redo have something to do.
\<close>

definition task_mid :: Task where
  "task_mid =
     task0\<lparr>aiHistory := [snapshot_of task0, snapshot_of (task0\<lparr>emoji := Some [10024]\<rparr>)],
           aiCursor := 0\<rparr>"

definition db_mid :: collection where
  "db_mid = Map.empty(key0 \<mapsto> task_mid)"

definition edit0 :: AIEditPayload where
  "edit0 = \<lparr>AIEditPayload.taskId = tid0, prompt = py_str ''Polish This Task''\<rparr>"

definition edit_emoji :: AIEditPayload where
  "edit_emoji = \<lparr>AIEditPayload.taskId = tid0, prompt = py_str ''emoji''\<rparr>"

definition edit_hello :: AIEditPayload where
  "edit_hello = \<lparr>AIEditPayload.taskId = tid0, prompt = py_str ''hello''\<rparr>"

text \<open>
  Bodies of PATCH requests that set one field to \<open>null\<close>: \<open>{"description": null}\<close> and
  \<open>{"subtasks": null}\<close>.
\<close>

definition patch_null_description :: TaskUpdate where
  "patch_null_description = no_updates\<lparr>TaskUpdate.description := Some None\<rparr>"

definition patch_null_subtasks :: TaskUpdate where
  "patch_null_subtasks = no_updates\<lparr>TaskUpdate.subtasks := Some None\<rparr>"

section \<open>Facts about the store and the sample data\<close>

lemma oid_tid0: "oid tid0 = Inr key0"
  by (simp add: oid_def tid0_def key0_def py_str_def ishex_def hexval_def ascii_space_def)

lemma payload0_valid: "TaskCreate_valid payload0"
  by (simp add: TaskCreate_valid_def payload0_def SubTask_valid_def sub0_def)

lemma db0_key0: "db0 key0 = Some task0"
  by (simp add: db0_def)

lemma db_mid_key0: "db_mid key0 = Some task_mid"
  by (simp add: db_mid_def)

lemma edit0_no_keyword: "no_keyword (lower (prompt edit0))"
  by (simp add: edit0_def no_keyword_def lower_def lower_char_def py_str_def)

lemma find_one_Some: "db k = Some t \<Longrightarrow> find_one db k = Some (k, t)"
  by (simp add: find_one_def)

lemma find_one_None: "db k = None \<Longrightarrow> find_one db k = None"
  by (simp add: find_one_def)

lemma update_one_Some: "db k = Some t \<Longrightarrow> update_one db k f = db(k \<mapsto> f t)"
  by (simp add: update_one_def)

lemma update_one_None: "db k = None \<Longrightarrow> update_one db k f = db"
  by (simp add: update_one_def)

section \<open>Creating a task\<close>

text \<open>
  C9. For every valid Create input (and a fresh \<open>_id\<close> from the driver), the task that
  \<open>create_task\<close> stores and returns has \<open>completed = False\<close>, the timer session in the
  reset state (idle, no start time, 0 elapsed seconds, no subtask index), an empty AI
  history and the cursor \<open>-1\<close>.
\<close>

theorem create_task_defaults:
  assumes "TaskCreate_valid payload" and "db new_id = None"
  shows "\<exists>t. create_task db new_id now1 now2 payload
                = (db(new_id \<mapsto> t), Inr (Some (str_of_oid new_id, t))) \<and>
           completed t = Some False \<and>
           timerSession t =
             \<lparr>status = idle, startedAt = None, elapsedSeconds = 0,
              currentSubtaskIndex = None\<rparr> \<and>
           aiHistory t = [] \<and> aiCursor t = - 1"
  using assms
  by (auto simp: create_task_def insert_one_def find_one_def serialize_def reset_timer_def
      Let_def)

theorem create_task_defaults_witness:
  "\<exists>t. create_task Map.empty key0 3 4 payload0
          = (Map.empty(key0 \<mapsto> t), Inr (Some (str_of_oid key0, t))) \<and>
       completed t = Some False \<and>
       timerSession t =
         \<lparr>status = idle, startedAt = None, elapsedSeconds = 0, currentSubtaskIndex = None\<rparr> \<and>
       aiHistory t = [] \<and> aiCursor t = - 1"
  using create_task_defaults [OF payload0_valid, of Map.empty key0 3 4] by simp

section \<open>Patching a task\<close>

lemma is_empty_valid: "is_empty u \<Longrightarrow> TaskUpdate_valid u"
  by (simp add: is_empty_def TaskUpdate_valid_def)

text \<open>
  C5. For every existing task, a Patch whose payload sets no field succeeds, returns
  the task as it is stored, and leaves the collection as it was: no field of the
  stored task changes, \<open>updated_at\<close> included.
\<close>

theorem update_task_no_fields:
  assumes "oid task_id = Inr k" and "db k = Some t" and "is_empty payload"
  shows "update_task db now task_id payload = (db, Inr (Some (str_of_oid k, t)))"
  using assms
  by (simp add: update_task_def is_empty_valid find_one_Some serialize_def)

theorem update_task_no_fields_witness:
  "update_task db0 9 tid0 no_updates = (db0, Inr (Some (str_of_oid key0, task0)))"
  using update_task_no_fields [where task_id = tid0 and k = key0 and db = db0 and t = task0
      and payload = no_updates and now = 9]
  by (simp add: oid_tid0 db0_key0 is_empty_def no_updates_def)

text \<open>
  \<open>update_task\<close> never looks whether the task exists: for an identifier that names no
  document, \<open>update_one\<close> writes nothing, \<open>find_one\<close> gives \<open>None\<close>, \<open>serialize\<close>
  keeps it, and the handler returns it.
\<close>

lemma update_task_unknown:
  assumes "oid task_id = Inr k" and "db k = None" and "TaskUpdate_valid payload"
  shows "update_task db now task_id payload = (db, Inr None)"
  using assms
  by (simp add: update_task_def find_one_None update_one_None serialize_def Let_def)

text \<open>
  C4. The claim is that a Patch of an identifier that names no task fails with
  \<open>NotFoundError\<close>. On an empty collection the handler instead succeeds and returns
  \<open>None\<close>, with an empty payload and with a payload that sets the title.
\<close>

theorem update_task_unknown_id_returns_null:
  "update_task Map.empty 9 tid0 no_updates = (Map.empty, Inr None) \<and>
   update_task Map.empty 9 tid0
       (no_updates\<lparr>TaskUpdate.title := Some (Some (py_str ''New title''))\<rparr>)
     = (Map.empty, Inr None)"
  by (simp add: update_task_unknown [OF oid_tid0] TaskUpdate_valid_def no_updates_def)

text \<open>
  A payload that sets a field is written as it is, a field set to \<open>null\<close> included.
\<close>

lemma update_task_writes:
  assumes "oid task_id = Inr k" and "db k = Some t"
    and "TaskUpdate_valid payload" and "\<not> is_empty payload"
  shows "update_task db now task_id payload =
           (db(k \<mapsto> (set_fields payload t)\<lparr>updated_at := now\<rparr>),
            Inr (Some (str_of_oid k, (set_fields payload t)\<lparr>updated_at := now\<rparr>)))"
  using assms
  by (simp add: update_task_def find_one_def update_one_def serialize_def Let_def)

lemma patch_null_description_ok:
  "TaskUpdate_valid patch_null_description \<and> \<not> is_empty patch_null_description"
  by (simp add: patch_null_description_def no_updates_def TaskUpdate_valid_def is_empty_def)

lemma patch_null_subtasks_ok:
  "TaskUpdate_valid patch_null_subtasks \<and> \<not> is_empty patch_null_subtasks"
  by (simp add: patch_null_subtasks_def no_updates_def TaskUpdate_valid_def is_empty_def)

lemma set_null_description:
  "set_fields patch_null_description t = t\<lparr>description := None\<rparr>"
  by (simp add: set_fields_def patch_null_description_def no_updates_def)

lemma set_null_subtasks:
  "set_fields patch_null_subtasks t = t\<lparr>subtasks := None\<rparr>"
  by (simp add: set_fields_def patch_null_subtasks_def no_updates_def)

section \<open>Toggling a subtask\<close>

text \<open>
  An identifier is a string \<open>ObjectId\<close> accepts. For any other string \<open>oid\<close> raises its
  400 before the handler reads the collection.
\<close>

lemma toggle_subtask_malformed_id:
  "oid task_id = Inl e \<Longrightarrow> toggle_subtask db now task_id index = (db, Inl e)"
  by (simp add: toggle_subtask_def)

text \<open>
  On a task whose subtasks are a list the handler does what the specification says:
  \<open>NotFoundError\<close> for an identifier that names no task; for a stored task
  \<open>OutOfRangeError\<close> exactly when the index is outside \<open>[0, len(subtasks))\<close>, with
  the collection as before; otherwise the stored and returned task is the old one with
  \<open>subtasks[index].completed\<close> set to the negation of what \<open>.get("completed", False)\<close>
  read (and \<open>updated_at\<close> set).
\<close>

lemma toggle_subtask_on_list:
  assumes "oid task_id = Inr k"
  shows "(db k = None \<longrightarrow> toggle_subtask db now task_id index = (db, Inl NotFoundError)) \<and>
         (\<forall>t subs. db k = Some t \<and> subtasks t = Some subs \<longrightarrow>
            (snd (toggle_subtask db now task_id index) = Inl OutOfRangeError
               \<longleftrightarrow> index < 0 \<or> int (length subs) \<le> index) \<and>
            (index < 0 \<or> int (length subs) \<le> index
               \<longrightarrow> fst (toggle_subtask db now task_id index) = db) \<and>
            (0 \<le> index \<and> index < int (length subs) \<longrightarrow>
               (let s = subs ! nat index;
                    t' = t\<lparr>subtasks :=
                             Some (subs[nat index :=
                                s\<lparr>SubTask.completed := Some (\<not> get_completed s)\<rparr>]),
                           updated_at := now\<rparr>
                in toggle_subtask db now task_id index
                     = (db(k \<mapsto> t'), Inr (Some (str_of_oid k, t'))))))"
  using assms
  by (auto simp: toggle_subtask_def find_one_def update_one_def serialize_def Let_def)

text \<open>
  On a task whose subtasks are \<open>null\<close> and an index that is not negative, \<open>len(subs)\<close>
  raises \<open>TypeError\<close> and nothing is written.
\<close>

lemma toggle_subtask_null_subtasks:
  assumes "oid task_id = Inr k" and "db k = Some t" and "subtasks t = None" and "0 \<le> index"
  shows "toggle_subtask db now task_id index = (db, Inl TypeError)"
  using assms by (simp add: toggle_subtask_def find_one_def)

text \<open>
  C6. The claim is that \<open>toggle_subtask\<close> on a stored task either fails with
  \<open>OutOfRangeError\<close>, when the index is outside the subtask sequence, or flips
  \<open>subtasks[index].completed\<close>. After a PATCH with the body \<open>{"subtasks": null}\<close>,
  which \<open>update_task\<close> accepts and stores, the stored task has no subtask sequence,
  and \<open>toggle_subtask\<close> with index 0 does neither: it raises \<open>TypeError\<close> and leaves
  the collection as it was.
\<close>

theorem toggle_subtask_after_null_patch:
  "\<exists>db'. update_task db0 5 tid0 patch_null_subtasks
            = (db', Inr (Some (str_of_oid key0, task0\<lparr>subtasks := None, updated_at := 5\<rparr>))) \<and>
         db' key0 = Some (task0\<lparr>subtasks := None, updated_at := 5\<rparr>) \<and>
         toggle_subtask db' 6 tid0 0 = (db', Inl TypeError)"
proof -
  define db' where "db' = db0(key0 \<mapsto> task0\<lparr>subtasks := None, updated_at := 5\<rparr>)"
  have p: "update_task db0 5 tid0 patch_null_subtasks
            = (db', Inr (Some (str_of_oid key0, task0\<lparr>subtasks := None, updated_at := 5\<rparr>)))"
    using update_task_writes [where db = db0, OF oid_tid0 db0_key0, of patch_null_subtasks 5]
      patch_null_subtasks_ok
    by (simp add: set_null_subtasks db'_def)
  have s: "db' key0 = Some (task0\<lparr>subtasks := None, updated_at := 5\<rparr>)"
    by (simp add: db'_def)
  have "toggle_subtask db' 6 tid0 0 = (db', Inl TypeError)"
    using oid_tid0 s by (rule toggle_subtask_null_subtasks) simp_all
  with p s show ?thesis by blast
qed

text \<open>
  C7. For every existing task and every valid index, two calls of \<open>toggle_subtask\<close>
  with that index both succeed, and afterwards \<open>subtasks[index].completed\<close> has the
  value it had before the first call (\<open>False\<close> when the key was not there). The
  subtask list is the old one with that value stored at the index: it is the old list
  when the key was there.
\<close>

theorem toggle_subtask_twice:
  assumes "oid task_id = Inr k" and "db k = Some t" and "subtasks t = Some subs"
    and "0 \<le> index" and "index < int (length subs)"
  shows "\<exists>db1 r1 db2 r2 t2 subs2.
           toggle_subtask db now1 task_id index = (db1, Inr r1) \<and>
           toggle_subtask db1 now2 task_id index = (db2, Inr r2) \<and>
           db2 k = Some t2 \<and> subtasks t2 = Some subs2 \<and>
           get_completed (subs2 ! nat index) = get_completed (subs ! nat index) \<and>
           subs2 = subs[nat index :=
                     (subs ! nat index)
                       \<lparr>SubTask.completed := Some (get_completed (subs ! nat index))\<rparr>] \<and>
           (\<forall>b. SubTask.completed (subs ! nat index) = Some b \<longrightarrow> subs2 = subs)"
proof -
  define s where "s = subs ! nat index"
  define subs2 where "subs2 = subs[nat index := s\<lparr>SubTask.completed := Some (get_completed s)\<rparr>]"
  have runs: "\<exists>db1 r1 db2 r2 t2.
           toggle_subtask db now1 task_id index = (db1, Inr r1) \<and>
           toggle_subtask db1 now2 task_id index = (db2, Inr r2) \<and>
           db2 k = Some t2 \<and> subtasks t2 = Some subs2"
    using assms
    by (simp add: toggle_subtask_def find_one_def update_one_def serialize_def Let_def
        get_completed_def subs2_def s_def)
  have orig: "get_completed (subs2 ! nat index) = get_completed s"
    using assms(4,5) by (simp add: subs2_def get_completed_def)
  have same: "subs2 = subs" if "SubTask.completed s = Some b" for b
  proof -
    have "s\<lparr>SubTask.completed := Some (get_completed s)\<rparr> = s"
      using that by (cases s) (simp add: get_completed_def)
    then show ?thesis by (simp add: subs2_def s_def)
  qed
  from runs orig same show ?thesis
    unfolding subs2_def s_def by blast
qed

theorem toggle_subtask_twice_witness:
  "\<exists>db1 r1 db2 r2 t2 subs2.
     toggle_subtask db0 8 tid0 1 = (db1, Inr r1) \<and>
     toggle_subtask db1 9 tid0 1 = (db2, Inr r2) \<and>
     db2 key0 = Some t2 \<and> subtasks t2 = Some subs2 \<and>
     get_completed (subs2 ! nat 1) = get_completed ([sub0 20, sub0 5, sub0 10] ! nat 1) \<and>
     subs2 = [sub0 20, sub0 5, sub0 10]"
proof -
  have c: "SubTask.completed ([sub0 20, sub0 5, sub0 10] ! nat 1) = Some False"
    by (simp add: sub0_def)
  from toggle_subtask_twice [where task_id = tid0 and k = key0 and db = db0 and t = task0
      and subs = "[sub0 20, sub0 5, sub0 10]" and index = 1 and ?now1.0 = 8 and ?now2.0 = 9]
  obtain db1 r1 db2 r2 t2 subs2 where
    "toggle_subtask db0 8 tid0 1 = (db1, Inr r1)"
    "toggle_subtask db1 9 tid0 1 = (db2, Inr r2)"
    "db2 key0 = Some t2" "subtasks t2 = Some subs2"
    "get_completed (subs2 ! nat 1) = get_completed ([sub0 20, sub0 5, sub0 10] ! nat 1)"
    "\<forall>b. SubTask.completed ([sub0 20, sub0 5, sub0 10] ! nat 1) = Some b
       \<longrightarrow> subs2 = [sub0 20, sub0 5, sub0 10]"
    by (auto simp: oid_tid0 db0_key0 task0_def)
  with c show ?thesis by blast
qed

section \<open>The timer\<close>

text \<open>
  C8. For every existing task, \<open>timer_stop\<close> stores and returns the task with the
  timer session in the reset state (idle, no start time, 0 elapsed seconds, no subtask
  index), whatever the session was before. In particular Start with subtask index 1,
  then Pause with 42 elapsed seconds, then Stop leaves the session in the reset state.
\<close>

theorem timer_stop_resets:
  assumes "oid task_id = Inr k" and "db k = Some t"
  shows "(\<exists>t'. timer_stop db now task_id = (db(k \<mapsto> t'), Inr (Some (str_of_oid k, t'))) \<and>
            timerSession t' =
              \<lparr>status = idle, startedAt = None, elapsedSeconds = 0,
               currentSubtaskIndex = None\<rparr>) \<and>
         (\<exists>db1 r1 db2 r2 db3 t3.
            timer_start db n1 n2 task_id (Some 1) = (db1, Inr r1) \<and>
            timer_pause db1 n3 task_id 42 = (db2, Inr r2) \<and>
            timer_stop db2 n4 task_id = (db3, Inr (Some (str_of_oid k, t3))) \<and>
            db3 k = Some t3 \<and>
            timerSession t3 =
              \<lparr>status = idle, startedAt = None, elapsedSeconds = 0,
               currentSubtaskIndex = None\<rparr>)"
  using assms
  by (simp add: timer_stop_def timer_start_def timer_pause_def find_one_def update_one_def
      serialize_def Let_def)

theorem timer_stop_resets_witness:
  "(\<exists>t'. timer_stop db0 9 tid0 = (db0(key0 \<mapsto> t'), Inr (Some (str_of_oid key0, t'))) \<and>
      timerSession t' =
        \<lparr>status = idle, startedAt = None, elapsedSeconds = 0, currentSubtaskIndex = None\<rparr>) \<and>
   (\<exists>db1 r1 db2 r2 db3 t3.
      timer_start db0 5 6 tid0 (Some 1) = (db1, Inr r1) \<and>
      timer_pause db1 7 tid0 42 = (db2, Inr r2) \<and>
      timer_stop db2 8 tid0 = (db3, Inr (Some (str_of_oid key0, t3))) \<and>
      db3 key0 = Some t3 \<and>
      timerSession t3 =
        \<lparr>status = idle, startedAt = None, elapsedSeconds = 0, currentSubtaskIndex = None\<rparr>)"
  using timer_stop_resets [where task_id = tid0 and k = key0 and db = db0 and t = task0
      and now = 9 and ?n1.0 = 5 and ?n2.0 = 6 and ?n3.0 = 7 and ?n4.0 = 8]
  by (simp add: oid_tid0 db0_key0)

section \<open>AI edits, undo and redo\<close>

subsection \<open>Single calls\<close>

lemma getitem_in_range:
  "0 \<le> i \<Longrightarrow> i < int (length xs) \<Longrightarrow> getitem xs i = Inr (xs ! nat i)"
  by (simp add: getitem_def)

lemma slice_to_all: "slice_to xs (int (length xs)) = xs"
  by (simp add: slice_to_def)

text \<open>An edit whose keyword rules raise writes nothing.\<close>

lemma ai_edit_task_raises:
  assumes "oid (AIEditPayload.taskId payload) = Inr k" and "db k = Some t"
    and "derive_updates t (lower (prompt payload)) = Inl e"
  shows "ai_edit_task db now payload = (db, Inl e)"
  using assms by (simp add: ai_edit_task_def find_one_def Let_def)

lemma ai_edit_task_writes:
  assumes "oid (AIEditPayload.taskId payload) = Inr k" and "db k = Some t"
    and "derive_updates t (lower (prompt payload)) = Inr u"
  shows "ai_edit_task db now payload =
           (db(k \<mapsto> (set_fields u t)
              \<lparr>aiHistory := slice_to (aiHistory t) (aiCursor t + 1) @ [snapshot_of t],
               aiCursor :=
                 int (length (slice_to (aiHistory t) (aiCursor t + 1) @ [snapshot_of t])) - 1,
               updated_at := now\<rparr>),
            Inr (Some (str_of_oid k, (set_fields u t)
              \<lparr>aiHistory := slice_to (aiHistory t) (aiCursor t + 1) @ [snapshot_of t],
               aiCursor :=
                 int (length (slice_to (aiHistory t) (aiCursor t + 1) @ [snapshot_of t])) - 1,
               updated_at := now\<rparr>)))"
  using assms
  by (simp add: ai_edit_task_def find_one_def update_one_def serialize_def Let_def)

lemma ai_undo_acts:
  assumes "oid (AIHistoryMove.taskId payload) = Inr k" and "db k = Some t"
    and "0 \<le> aiCursor t" and "aiCursor t < int (length (aiHistory t))"
  shows "ai_undo db now payload =
           (db(k \<mapsto> (restore (aiHistory t ! nat (aiCursor t)) t)
              \<lparr>aiCursor := aiCursor t - 1, updated_at := now\<rparr>),
            Inr (Some (str_of_oid k, (restore (aiHistory t ! nat (aiCursor t)) t)
              \<lparr>aiCursor := aiCursor t - 1, updated_at := now\<rparr>)))"
  using assms
  by (simp add: ai_undo_def find_one_def update_one_def serialize_def getitem_in_range
      Let_def)

subsection \<open>The keyword rules\<close>

text \<open>
  On a \<open>null\<close> description, a prompt with no keyword reaches the last rule, where
  \<open>None + "..."\<close> raises \<open>TypeError\<close>.
\<close>

lemma derive_updates_null_description:
  assumes "description task = None" and "no_keyword p"
  shows "derive_updates task p = Inl TypeError"
  using assms
  by (simp add: derive_updates_def no_keyword_def is_empty_def no_updates_def Let_def)

lemma derive_updates_no_keyword:
  assumes "description task = Some d" and "no_keyword p"
  shows "derive_updates task p =
           Inr (no_updates\<lparr>TaskUpdate.description :=
             Some (Some (strip (d @ [10, 10] @ py_str ''Tuned for clarity.'')))\<rparr>)"
  using assms
  by (simp add: derive_updates_def no_keyword_def is_empty_def no_updates_def Let_def)

text \<open>
  On a description and subtasks that are not \<open>null\<close> the rules raise nothing, and they
  set neither of the two to \<open>null\<close>.
\<close>

lemma derive_updates_typed:
  assumes "typed_as_schema t"
  shows "\<exists>u. derive_updates t p = Inr u \<and> typed_as_schema (set_fields u t)"
proof -
  from assms obtain d ss where d: "description t = Some d" and ss: "subtasks t = Some ss"
    by (auto simp: typed_as_schema_def)
  have "\<exists>u. derive_updates t p = Inr u \<and>
          TaskUpdate.description u \<noteq> Some None \<and> TaskUpdate.subtasks u \<noteq> Some None"
    by (simp add: derive_updates_def d ss no_updates_def Let_def)
  then obtain u where u: "derive_updates t p = Inr u"
    and "TaskUpdate.description u \<noteq> Some None" and "TaskUpdate.subtasks u \<noteq> Some None"
    by blast
  then have "typed_as_schema (set_fields u t)"
    using d ss by (auto simp: typed_as_schema_def set_fields_def split: option.splits)
  with u show ?thesis by blast
qed

lemma emoji_rule_only:
  "derive_updates t (lower (py_str ''emoji''))
     = Inr (no_updates\<lparr>TaskUpdate.emoji := Some (Some [10024])\<rparr>)"
  by (simp add: derive_updates_def lower_def lower_char_def py_str_def is_empty_def
      no_updates_def Let_def)

lemma hello_no_keyword: "no_keyword (lower (py_str ''hello''))"
  by (simp add: no_keyword_def lower_def lower_char_def py_str_def)

subsection \<open>\<open>strip\<close> and the fallback suffix\<close>

text \<open>
  \<open>strip\<close> leaves a text alone that ends in a block with no white space at its two
  ends, apart from the white space in front.
\<close>

lemma strip_append:
  assumes "T \<noteq> []" and "\<not> isspace (hd T)" and "\<not> isspace (last T)"
  shows "strip (d @ T) = dropWhile isspace d @ T"
proof -
  obtain y ys where T: "T = y # ys" using assms(1) by (cases T) auto
  have front: "dropWhile isspace (d @ T) = dropWhile isspace d @ T"
    using assms(2) by (simp add: T dropWhile_append3)
  have "rev T \<noteq> []" and "\<not> isspace (hd (rev T))"
    using assms(1,3) by (simp_all add: hd_rev)
  then have "dropWhile isspace (rev T @ rev (dropWhile isspace d))
               = rev T @ rev (dropWhile isspace d)"
    by (cases "rev T") simp_all
  then show ?thesis
    by (simp add: strip_def front)
qed

lemma strip_unchanged:
  assumes "s \<noteq> []" and "\<not> isspace (hd s)" and "\<not> isspace (last s)"
  shows "strip s = s"
proof -
  have "dropWhile isspace s = s" using assms(1,2) by (cases s) simp_all
  moreover have "dropWhile isspace (rev s) = rev s"
    using assms(1,3) by (cases "rev s") (simp_all add: hd_rev [symmetric])
  ultimately show ?thesis by (simp add: strip_def)
qed

lemma tuned_ends:
  "py_str ''Tuned for clarity.'' \<noteq> [] \<and> \<not> isspace (hd (py_str ''Tuned for clarity.'')) \<and>
   \<not> isspace (last (py_str ''Tuned for clarity.''))"
  by (simp add: py_str_def isspace_def)

subsection \<open>What an edit pushes\<close>

text \<open>
  On a stored task whose description and subtasks are not \<open>null\<close>, and for every
  prompt, \<open>ai_edit_task\<close> succeeds, and the task it stores and returns has as history
  the old history up to and including the cursor (the slice \<open>history[:cursor + 1]\<close>)
  followed by a snapshot of the title, description, estimated minutes, emoji and
  subtasks as they were before the edit, and has the cursor on that last entry. When
  the prompt holds no keyword, the new description is the old one with two line feeds
  and \<open>Tuned for clarity.\<close> appended, then stripped: it ends in \<open>Tuned for clarity.\<close>,
  it is exactly the old description with the suffix when the old one starts with a
  character that is no white space, and the other editable fields are as before.
\<close>

lemma ai_edit_task_on_typed_task:
  assumes "oid (AIEditPayload.taskId payload) = Inr k" and "db k = Some t"
    and "description t = Some d" and "subtasks t = Some ss"
  shows "\<exists>t'. ai_edit_task db now payload = (db(k \<mapsto> t'), Inr (Some (str_of_oid k, t'))) \<and>
           aiHistory t' =
             slice_to (aiHistory t) (aiCursor t + 1) @
               [\<lparr>title = title t, description = description t,
                 estimatedMinutes = estimatedMinutes t, emoji = emoji t,
                 subtasks = subtasks t\<rparr>] \<and>
           (- 1 \<le> aiCursor t \<longrightarrow>
              slice_to (aiHistory t) (aiCursor t + 1)
                = take (nat (aiCursor t + 1)) (aiHistory t)) \<and>
           aiCursor t' = int (length (aiHistory t')) - 1 \<and>
           (no_keyword (lower (prompt payload)) \<longrightarrow>
              description t'
                = Some (strip (d @ [10, 10] @ py_str ''Tuned for clarity.'')) \<and>
              (\<exists>pre. description t' = Some (pre @ py_str ''Tuned for clarity.'')) \<and>
              (d \<noteq> [] \<and> \<not> isspace (hd d) \<longrightarrow>
                 description t' = Some (d @ [10, 10] @ py_str ''Tuned for clarity.'')) \<and>
              title t' = title t \<and> estimatedMinutes t' = estimatedMinutes t \<and>
              emoji t' = emoji t \<and> subtasks t' = subtasks t)"
proof -
  have "typed_as_schema t" using assms(3,4) by (simp add: typed_as_schema_def)
  then obtain u where u: "derive_updates t (lower (prompt payload)) = Inr u"
    using derive_updates_typed by blast
  define t' where "t' = (set_fields u t)
      \<lparr>aiHistory := slice_to (aiHistory t) (aiCursor t + 1) @ [snapshot_of t],
       aiCursor := int (length (slice_to (aiHistory t) (aiCursor t + 1) @ [snapshot_of t])) - 1,
       updated_at := now\<rparr>"
  have call: "ai_edit_task db now payload = (db(k \<mapsto> t'), Inr (Some (str_of_oid k, t')))"
    unfolding t'_def using assms(1,2) u by (rule ai_edit_task_writes)
  have hist: "aiHistory t' = slice_to (aiHistory t) (aiCursor t + 1) @
               [\<lparr>title = title t, description = description t,
                 estimatedMinutes = estimatedMinutes t, emoji = emoji t,
                 subtasks = subtasks t\<rparr>]"
    by (simp add: t'_def snapshot_of_def)
  have sl: "- 1 \<le> aiCursor t \<longrightarrow>
      slice_to (aiHistory t) (aiCursor t + 1) = take (nat (aiCursor t + 1)) (aiHistory t)"
    by (simp add: slice_to_def)
  have cur: "aiCursor t' = int (length (aiHistory t')) - 1"
    by (simp add: t'_def)
  have nk: "description t' = Some (strip (d @ [10, 10] @ py_str ''Tuned for clarity.'')) \<and>
              (\<exists>pre. description t' = Some (pre @ py_str ''Tuned for clarity.'')) \<and>
              (d \<noteq> [] \<and> \<not> isspace (hd d) \<longrightarrow>
                 description t' = Some (d @ [10, 10] @ py_str ''Tuned for clarity.'')) \<and>
              title t' = title t \<and> estimatedMinutes t' = estimatedMinutes t \<and>
              emoji t' = emoji t \<and> subtasks t' = subtasks t"
    if "no_keyword (lower (prompt payload))"
  proof -
    let ?T = "py_str ''Tuned for clarity.''"
    have "u = no_updates\<lparr>TaskUpdate.description := Some (Some (strip (d @ [10, 10] @ ?T)))\<rparr>"
      using u derive_updates_no_keyword [OF assms(3) that] by simp
    then have dd: "description t' = Some (strip (d @ [10, 10] @ ?T))"
      and rest: "title t' = title t \<and> estimatedMinutes t' = estimatedMinutes t \<and>
              emoji t' = emoji t \<and> subtasks t' = subtasks t"
      by (simp_all add: t'_def set_fields_def no_updates_def)
    have "strip ((d @ [10, 10]) @ ?T) = dropWhile isspace (d @ [10, 10]) @ ?T"
      using tuned_ends by (intro strip_append) simp_all
    then have suf: "\<exists>pre. strip (d @ [10, 10] @ ?T) = pre @ ?T"
      by auto
    have ex: "strip (d @ [10, 10] @ ?T) = d @ [10, 10] @ ?T"
      if "d \<noteq> []" and "\<not> isspace (hd d)"
      using that tuned_ends by (intro strip_unchanged) simp_all
    show ?thesis using dd rest suf ex by simp
  qed
  show ?thesis
    using call hist sl cur nk by (intro exI [of _ t']) blast
qed

text \<open>
  C2. The claim is that \<open>ai_edit_task\<close> pushes a snapshot and moves the cursor for
  every existing task and every prompt, also when no keyword matches. A PATCH with
  the body \<open>{"description": null}\<close> is accepted and stored by \<open>update_task\<close>; on the
  task it leaves, an edit with a prompt that holds no keyword raises \<open>TypeError\<close> in
  the fallback rule, before the write: nothing is pushed and the collection is as it
  was.
\<close>

theorem ai_edit_task_after_null_patch:
  "\<exists>db'. update_task db0 5 tid0 patch_null_description
            = (db', Inr (Some (str_of_oid key0,
                 task0\<lparr>description := None, updated_at := 5\<rparr>))) \<and>
         db' key0 = Some (task0\<lparr>description := None, updated_at := 5\<rparr>) \<and>
         no_keyword (lower (prompt edit0)) \<and>
         ai_edit_task db' 6 edit0 = (db', Inl TypeError)"
proof -
  define t1 where "t1 = task0\<lparr>description := None, updated_at := 5\<rparr>"
  define db' where "db' = db0(key0 \<mapsto> t1)"
  have p: "update_task db0 5 tid0 patch_null_description
            = (db', Inr (Some (str_of_oid key0, t1)))"
    using update_task_writes [where db = db0, OF oid_tid0 db0_key0, of patch_null_description 5]
      patch_null_description_ok
    by (simp add: set_null_description db'_def t1_def)
  have s: "db' key0 = Some t1"
    by (simp add: db'_def)
  have "derive_updates t1 (lower (prompt edit0)) = Inl TypeError"
    using edit0_no_keyword by (intro derive_updates_null_description) (simp_all add: t1_def)
  moreover have "oid (AIEditPayload.taskId edit0) = Inr key0"
    by (simp add: edit0_def oid_tid0)
  ultimately have "ai_edit_task db' 6 edit0 = (db', Inl TypeError)"
    using s by (intro ai_edit_task_raises [where k = key0 and t = t1])
  with p s edit0_no_keyword show ?thesis unfolding t1_def by blast
qed

subsection \<open>The cursor stays inside the history\<close>

lemma ai_edit_task_inv:
  assumes "oid task_id = Inr k" and "db k = Some t" and "cursor_in_range t"
  shows "\<exists>t'. fst (ai_edit_task db now \<lparr>AIEditPayload.taskId = task_id, prompt = p\<rparr>) k
                = Some t' \<and> cursor_in_range t'"
  using assms
  by (simp add: ai_edit_task_def find_one_def update_one_def cursor_in_range_def Let_def
      split: sum.split)

lemma ai_undo_inv:
  assumes "oid task_id = Inr k" and "db k = Some t" and "cursor_in_range t"
  shows "\<exists>t'. fst (ai_undo db now \<lparr>AIHistoryMove.taskId = task_id\<rparr>) k = Some t' \<and>
           cursor_in_range t'"
  using assms
  by (simp add: ai_undo_def find_one_def update_one_def cursor_in_range_def restore_def
      getitem_in_range Let_def)

lemma ai_redo_inv:
  assumes "oid task_id = Inr k" and "db k = Some t" and "cursor_in_range t"
  shows "\<exists>t'. fst (ai_redo db now \<lparr>AIHistoryMove.taskId = task_id\<rparr>) k = Some t' \<and>
           cursor_in_range t'"
  using assms
  by (simp add: ai_redo_def find_one_def update_one_def cursor_in_range_def restore_def
      getitem_in_range Let_def)

lemma step_inv:
  assumes "oid task_id = Inr k" and "db k = Some t" and "cursor_in_range t"
  shows "\<exists>t'. step db task_id x k = Some t' \<and> cursor_in_range t'"
proof (cases x)
  case (Pair o' now)
  show ?thesis
  proof (cases o')
    case (Edit p)
    with Pair ai_edit_task_inv [where db = db, OF assms] show ?thesis by simp
  next
    case Undo
    with Pair ai_undo_inv [where db = db, OF assms] show ?thesis by simp
  next
    case Redo
    with Pair ai_redo_inv [where db = db, OF assms] show ?thesis by simp
  qed
qed

lemma run_inv:
  assumes "oid task_id = Inr k"
  shows "db k = Some t \<Longrightarrow> cursor_in_range t \<Longrightarrow>
         \<exists>t'. run db task_id ops k = Some t' \<and> cursor_in_range t'"
proof (induction ops arbitrary: db t)
  case Nil
  then show ?case by simp
next
  case (Cons x xs)
  from step_inv [where db = db, OF assms Cons.prems] obtain t1
    where "step db task_id x k = Some t1" and "cursor_in_range t1" by blast
  then show ?case using Cons.IH by simp
qed

text \<open>
  C1. Take a task with an empty history and the cursor \<open>-1\<close>, and any sequence of
  Edit, Undo and Redo calls on it. After each of them (after the first \<open>n\<close> calls, for
  every \<open>n\<close>) the task is still stored and \<open>-1 \<le> aiCursor \<le> len(aiHistory) - 1\<close>.
\<close>

theorem cursor_invariant:
  assumes "oid task_id = Inr k" and "db k = Some t"
    and "aiHistory t = []" and "aiCursor t = - 1"
  shows "\<exists>t'. run db task_id (take n ops) k = Some t' \<and>
           - 1 \<le> aiCursor t' \<and> aiCursor t' \<le> int (length (aiHistory t')) - 1"
proof -
  have "cursor_in_range t" using assms(3,4) by (simp add: cursor_in_range_def)
  from run_inv [where db = db, OF assms(1,2) this] show ?thesis
    by (simp add: cursor_in_range_def)
qed

theorem cursor_invariant_witness:
  "\<exists>t'. run db0 tid0
          (take 5 [(Edit (py_str ''make it simpler''), 2), (Edit (py_str ''Emoji please''), 3),
                   (Undo, 4), (Undo, 5), (Undo, 6), (Redo, 7), (Edit [], 8)]) key0 = Some t' \<and>
       - 1 \<le> aiCursor t' \<and> aiCursor t' \<le> int (length (aiHistory t')) - 1"
  using cursor_invariant [where task_id = tid0 and k = key0 and db = db0 and t = task0
      and n = 5
      and ops = "[(Edit (py_str ''make it simpler''), 2), (Edit (py_str ''Emoji please''), 3),
                   (Undo, 4), (Undo, 5), (Undo, 6), (Redo, 7), (Edit [], 8)]"]
  by (simp add: oid_tid0 db0_key0 task0_def)

subsection \<open>Edits followed by as many undos\<close>

lemma run_append: "run db task_id (xs @ ys) = run (run db task_id xs) task_id ys"
  by (induction xs arbitrary: db) simp_all

lemma edit_step:
  assumes "oid task_id = Inr k" and "db k = Some t" and "typed_as_schema t"
  shows "\<exists>u. typed_as_schema (set_fields u t) \<and>
           step db task_id (Edit p, now) k =
             Some ((set_fields u t)
               \<lparr>aiHistory := slice_to (aiHistory t) (aiCursor t + 1) @ [snapshot_of t],
                aiCursor :=
                  int (length (slice_to (aiHistory t) (aiCursor t + 1) @ [snapshot_of t])) - 1,
                updated_at := now\<rparr>)"
proof -
  from derive_updates_typed [OF assms(3)] obtain u
    where u: "derive_updates t (lower p) = Inr u" and ty: "typed_as_schema (set_fields u t)"
    by blast
  have "oid (AIEditPayload.taskId \<lparr>AIEditPayload.taskId = task_id, prompt = p\<rparr>) = Inr k"
    using assms(1) by simp
  from ai_edit_task_writes [where db = db, OF this assms(2), of u now] u ty
  show ?thesis by (intro exI [of _ u]) simp
qed

lemma undo_step:
  assumes "oid task_id = Inr k" and "db k = Some t"
    and "0 \<le> aiCursor t" and "aiCursor t < int (length (aiHistory t))"
  shows "step db task_id (Undo, now) k =
           Some ((restore (aiHistory t ! nat (aiCursor t)) t)
             \<lparr>aiCursor := aiCursor t - 1, updated_at := now\<rparr>)"
  using assms
  by (simp add: ai_undo_def find_one_def update_one_def getitem_in_range Let_def)

text \<open>
  Edits of a task whose description and subtasks are not \<open>null\<close>, made with the cursor
  on the last entry, only append to the history.
\<close>

lemma edits_on_top:
  assumes "oid task_id = Inr k"
  shows "db k = Some t \<Longrightarrow> typed_as_schema t \<Longrightarrow>
         aiCursor t = int (length (aiHistory t)) - 1 \<Longrightarrow>
         \<exists>t' S. run db task_id (map (\<lambda>(p, now). (Edit p, now)) es) k = Some t' \<and>
                aiHistory t' = aiHistory t @ S \<and> length S = length es \<and>
                aiCursor t' = int (length (aiHistory t')) - 1"
proof (induction es arbitrary: db t)
  case Nil
  then show ?case by simp
next
  case (Cons e es)
  obtain p now where e: "e = (p, now)" by (cases e)
  from edit_step [where db = db, OF assms Cons.prems(1,2), of p now] obtain u
    where ty: "typed_as_schema (set_fields u t)"
      and s0: "step db task_id (Edit p, now) k =
             Some ((set_fields u t)
               \<lparr>aiHistory := slice_to (aiHistory t) (aiCursor t + 1) @ [snapshot_of t],
                aiCursor :=
                  int (length (slice_to (aiHistory t) (aiCursor t + 1) @ [snapshot_of t])) - 1,
                updated_at := now\<rparr>)"
    by blast
  define t1 where "t1 = (set_fields u t)
             \<lparr>aiHistory := slice_to (aiHistory t) (aiCursor t + 1) @ [snapshot_of t],
              aiCursor :=
                int (length (slice_to (aiHistory t) (aiCursor t + 1) @ [snapshot_of t])) - 1,
              updated_at := now\<rparr>"
  have s1: "step db task_id (Edit p, now) k = Some t1"
    using s0 by (simp add: t1_def)
  have ty1: "typed_as_schema t1"
    using ty by (simp add: t1_def typed_as_schema_def)
  have h1: "aiHistory t1 = aiHistory t @ [snapshot_of t]"
    using Cons.prems(3) by (simp add: t1_def slice_to_all)
  have c1: "aiCursor t1 = int (length (aiHistory t1)) - 1"
    by (simp add: t1_def)
  from Cons.IH [of "step db task_id (Edit p, now)" t1, OF s1 ty1 c1] obtain t' S
    where "run (step db task_id (Edit p, now)) task_id
             (map (\<lambda>(p, now). (Edit p, now)) es) k = Some t'"
      and "aiHistory t' = aiHistory t1 @ S" and "length S = length es"
      and "aiCursor t' = int (length (aiHistory t')) - 1"
    by blast
  then show ?case using h1 e
    by (intro exI [of _ t'] exI [of _ "snapshot_of t # S"]) simp
qed

text \<open>
  With the cursor \<open>m\<close> entries above the entry \<open>s\<close>, \<open>m + 1\<close> undos walk down to \<open>s\<close>
  and restore it.
\<close>

lemma undos_restore:
  assumes "oid task_id = Inr k"
  shows "db k = Some t \<Longrightarrow> aiHistory t = H @ s # S \<Longrightarrow>
         aiCursor t = int (length H) + int m \<Longrightarrow> m \<le> length S \<Longrightarrow> length us = Suc m \<Longrightarrow>
         \<exists>t'. run db task_id (map (\<lambda>now. (Undo, now)) us) k = Some t' \<and> snapshot_of t' = s"
proof (induction m arbitrary: db t us)
  case 0
  then obtain now where us: "us = [now]" by (cases us) auto
  have "step db task_id (Undo, now) k =
          Some ((restore (aiHistory t ! nat (aiCursor t)) t)
             \<lparr>aiCursor := aiCursor t - 1, updated_at := now\<rparr>)"
    using assms "0.prems"(1) by (rule undo_step) (use "0.prems" in simp_all)
  moreover have "aiHistory t ! nat (aiCursor t) = s"
    using "0.prems" by simp
  ultimately show ?case using us
    by (simp add: restore_def snapshot_of_def)
next
  case (Suc m)
  then obtain now us' where us: "us = now # us'" and len: "length us' = Suc m"
    by (cases us) auto
  define t1 where "t1 = (restore (aiHistory t ! nat (aiCursor t)) t)
             \<lparr>aiCursor := aiCursor t - 1, updated_at := now\<rparr>"
  have s1: "step db task_id (Undo, now) k = Some t1"
    unfolding t1_def using assms Suc.prems(1) by (rule undo_step) (use Suc.prems in simp_all)
  have h1: "aiHistory t1 = H @ s # S"
    using Suc.prems(2) by (simp add: t1_def restore_def)
  have c1: "aiCursor t1 = int (length H) + int m"
    using Suc.prems(3) by (simp add: t1_def restore_def)
  have "m \<le> length S" using Suc.prems(4) by simp
  from Suc.IH [of "step db task_id (Undo, now)" t1 us', OF s1 h1 c1 this len]
  show ?case using us by simp
qed

text \<open>
  On a stored task whose description and subtasks are not \<open>null\<close>, for every \<open>n \<ge> 1\<close>,
  every \<open>n\<close> prompts and all clock readings: \<open>n\<close> calls of \<open>ai_edit_task\<close> followed by
  \<open>n\<close> calls of \<open>ai_undo\<close> leave the task stored with the title, description, estimated
  minutes, emoji and subtasks it had before the first edit.
\<close>

lemma edits_then_undos_restore_typed_task:
  assumes "oid task_id = Inr k" and "db k = Some t" and "typed_as_schema t"
    and "es \<noteq> []" and "length us = length es"
  shows "\<exists>t'. run db task_id
                (map (\<lambda>(p, now). (Edit p, now)) es @ map (\<lambda>now. (Undo, now)) us) k
                = Some t' \<and>
           title t' = title t \<and> description t' = description t \<and>
           estimatedMinutes t' = estimatedMinutes t \<and> emoji t' = emoji t \<and>
           subtasks t' = subtasks t"
proof -
  from assms(4) obtain e es' where es: "es = e # es'" by (cases es) auto
  obtain p now where e: "e = (p, now)" by (cases e)
  define H where "H = slice_to (aiHistory t) (aiCursor t + 1)"
  define d1 where "d1 = step db task_id (Edit p, now)"
  from edit_step [where db = db, OF assms(1,2,3), of p now] obtain u
    where ty: "typed_as_schema (set_fields u t)"
      and s0: "d1 k =
             Some ((set_fields u t)
               \<lparr>aiHistory := H @ [snapshot_of t],
                aiCursor := int (length (H @ [snapshot_of t])) - 1,
                updated_at := now\<rparr>)"
    unfolding H_def d1_def by blast
  define t1 where "t1 = (set_fields u t)
             \<lparr>aiHistory := H @ [snapshot_of t],
              aiCursor := int (length (H @ [snapshot_of t])) - 1,
              updated_at := now\<rparr>"
  have s1: "d1 k = Some t1"
    using s0 by (simp add: t1_def)
  have ty1: "typed_as_schema t1"
    using ty by (simp add: t1_def typed_as_schema_def)
  have c1: "aiCursor t1 = int (length (aiHistory t1)) - 1"
    by (simp add: t1_def)
  from edits_on_top [where db = d1, OF assms(1) s1 ty1 c1, of es'] obtain t2 S
    where r2: "run d1 task_id (map (\<lambda>(p, now). (Edit p, now)) es') k = Some t2"
      and h2: "aiHistory t2 = aiHistory t1 @ S" and l2: "length S = length es'"
      and c2: "aiCursor t2 = int (length (aiHistory t2)) - 1"
    by blast
  define d2 where "d2 = run d1 task_id (map (\<lambda>(p, now). (Edit p, now)) es')"
  have h2': "aiHistory t2 = H @ snapshot_of t # S"
    using h2 by (simp add: t1_def)
  have c2': "aiCursor t2 = int (length H) + int (length S)"
    using c2 h2' by simp
  have "length us = Suc (length S)" using assms(5) es l2 by simp
  from undos_restore [where db = d2, OF assms(1) r2 [folded d2_def] h2' c2' order_refl this]
  obtain t' where r3: "run d2 task_id (map (\<lambda>now. (Undo, now)) us) k = Some t'"
    and "snapshot_of t' = snapshot_of t"
    by blast
  then have "title t' = title t \<and> description t' = description t \<and>
           estimatedMinutes t' = estimatedMinutes t \<and> emoji t' = emoji t \<and>
           subtasks t' = subtasks t"
    by (simp add: snapshot_of_def)
  moreover have "run db task_id
                   (map (\<lambda>(p, now). (Edit p, now)) es @ map (\<lambda>now. (Undo, now)) us)
                 = run d2 task_id (map (\<lambda>now. (Undo, now)) us)"
    by (simp add: run_append es e d2_def d1_def)
  ultimately show ?thesis using r3 by simp
qed

text \<open>
  C3. The claim is that \<open>n\<close> edits followed by \<open>n\<close> undos restore the editable fields
  of every task. Take the sample task after one edit with the prompt \<open>emoji\<close> (one
  snapshot, cursor 0) and a PATCH with the body \<open>{"description": null}\<close>, which
  \<open>update_task\<close> accepts and stores. With \<open>n = 1\<close>: the edit with the prompt \<open>hello\<close>
  raises \<open>TypeError\<close> and writes nothing, and the undo then restores the older
  snapshot, so the description and the emoji are not what they were before the edit.
\<close>

theorem edit_then_undo_after_null_patch:
  "\<exists>d1 r1 d2 r2 t2 d3 r3 t3.
     ai_edit_task db0 2 edit_emoji = (d1, Inr r1) \<and>
     update_task d1 3 tid0 patch_null_description = (d2, Inr r2) \<and>
     d2 key0 = Some t2 \<and>
     ai_edit_task d2 4 edit_hello = (d2, Inl TypeError) \<and>
     ai_undo d2 5 \<lparr>AIHistoryMove.taskId = tid0\<rparr> = (d3, Inr r3) \<and>
     run d2 tid0 [(Edit (py_str ''hello''), 4), (Undo, 5)] = d3 \<and>
     d3 key0 = Some t3 \<and>
     description t2 = None \<and> emoji t2 = Some [10024] \<and>
     description t3 = Some (py_str ''Draft it'') \<and> emoji t3 = Some [129504]"
proof -
  define t1 where "t1 = (set_fields (no_updates\<lparr>TaskUpdate.emoji := Some (Some [10024])\<rparr>) task0)
      \<lparr>aiHistory := slice_to (aiHistory task0) (aiCursor task0 + 1) @ [snapshot_of task0],
       aiCursor :=
         int (length (slice_to (aiHistory task0) (aiCursor task0 + 1) @ [snapshot_of task0])) - 1,
       updated_at := 2\<rparr>"
  define d1 where "d1 = db0(key0 \<mapsto> t1)"
  define t2 where "t2 = (set_fields patch_null_description t1)\<lparr>updated_at := 3\<rparr>"
  define d2 where "d2 = d1(key0 \<mapsto> t2)"
  define t3 where "t3 = (restore (aiHistory t2 ! nat (aiCursor t2)) t2)
      \<lparr>aiCursor := aiCursor t2 - 1, updated_at := 5\<rparr>"
  define d3 where "d3 = d2(key0 \<mapsto> t3)"
  have id_emoji: "oid (AIEditPayload.taskId edit_emoji) = Inr key0"
    and id_hello: "oid (AIEditPayload.taskId edit_hello) = Inr key0"
    and id_undo: "oid (AIHistoryMove.taskId \<lparr>AIHistoryMove.taskId = tid0\<rparr>) = Inr key0"
    by (simp_all add: edit_emoji_def edit_hello_def oid_tid0)
  have "derive_updates task0 (lower (prompt edit_emoji))
          = Inr (no_updates\<lparr>TaskUpdate.emoji := Some (Some [10024])\<rparr>)"
    by (simp add: edit_emoji_def emoji_rule_only)
  with id_emoji db0_key0
  have a: "ai_edit_task db0 2 edit_emoji = (d1, Inr (Some (str_of_oid key0, t1)))"
    unfolding d1_def t1_def by (rule ai_edit_task_writes)
  have k1: "d1 key0 = Some t1" by (simp add: d1_def)
  have b: "update_task d1 3 tid0 patch_null_description
             = (d2, Inr (Some (str_of_oid key0, t2)))"
    using update_task_writes [where db = d1, OF oid_tid0 k1, of patch_null_description 3]
      patch_null_description_ok
    by (simp add: d2_def t2_def)
  have k2: "d2 key0 = Some t2" by (simp add: d2_def)
  have f1: "aiHistory t1 = [snapshot_of task0]" "aiCursor t1 = 0" "emoji t1 = Some [10024]"
    by (simp_all add: t1_def set_fields_def no_updates_def slice_to_def task0_def)
  have h2: "aiHistory t2 = [snapshot_of task0]" and c2: "aiCursor t2 = 0"
    and f2: "description t2 = None" "emoji t2 = Some [10024]"
    by (simp_all add: t2_def set_null_description f1)
  have "derive_updates t2 (lower (prompt edit_hello)) = Inl TypeError"
    using f2(1) hello_no_keyword
    by (intro derive_updates_null_description) (simp_all add: edit_hello_def)
  with id_hello k2
  have c: "ai_edit_task d2 4 edit_hello = (d2, Inl TypeError)"
    by (rule ai_edit_task_raises)
  have d: "ai_undo d2 5 \<lparr>AIHistoryMove.taskId = tid0\<rparr> = (d3, Inr (Some (str_of_oid key0, t3)))"
    unfolding d3_def t3_def using id_undo k2
    by (rule ai_undo_acts) (simp_all add: h2 c2)
  have k3: "d3 key0 = Some t3" by (simp add: d3_def)
  have f3: "description t3 = Some (py_str ''Draft it'')" "emoji t3 = Some [129504]"
    by (simp_all add: t3_def h2 c2 restore_def snapshot_of_def task0_def)
  have r: "run d2 tid0 [(Edit (py_str ''hello''), 4), (Undo, 5)] = d3"
    using c d by (simp add: edit_hello_def)
  from a b k2 c d r k3 f2 f3 show ?thesis by blast
qed

subsection \<open>Undo and redo leave the history alone\<close>

text \<open>
  C10. For every existing task, after \<open>ai_undo\<close> and after \<open>ai_redo\<close>, whether the call
  moved the cursor or returned the task as it was, the task is still stored with the
  same \<open>aiHistory\<close>; the owner, the completed and voice-reminder flags, the timer
  session and \<open>created_at\<close> are unchanged as well, so the call writes the editable
  fields, the cursor and \<open>updated_at\<close> at most.
\<close>

theorem undo_redo_keep_history:
  assumes "oid (AIHistoryMove.taskId payload) = Inr k" and "db k = Some t"
  shows "\<exists>t1 t2.
           fst (ai_undo db now payload) k = Some t1 \<and>
           aiHistory t1 = aiHistory t \<and>
           userId t1 = userId t \<and> completed t1 = completed t \<and>
           voiceReminder t1 = voiceReminder t \<and> timerSession t1 = timerSession t \<and>
           created_at t1 = created_at t \<and>
           fst (ai_redo db now payload) k = Some t2 \<and>
           aiHistory t2 = aiHistory t \<and>
           userId t2 = userId t \<and> completed t2 = completed t \<and>
           voiceReminder t2 = voiceReminder t \<and> timerSession t2 = timerSession t \<and>
           created_at t2 = created_at t"
  using assms
  by (simp add: ai_undo_def ai_redo_def find_one_def update_one_def restore_def Let_def
      split: sum.split)

theorem undo_redo_keep_history_witness:
  "\<exists>t1 t2.
     fst (ai_undo db_mid 9 \<lparr>AIHistoryMove.taskId = tid0\<rparr>) key0 = Some t1 \<and>
     aiHistory t1 = aiHistory task_mid \<and>
     userId t1 = userId task_mid \<and> completed t1 = completed task_mid \<and>
     voiceReminder t1 = voiceReminder task_mid \<and> timerSession t1 = timerSession task_mid \<and>
     created_at t1 = created_at task_mid \<and>
     fst (ai_redo db_mid 9 \<lparr>AIHistoryMove.taskId = tid0\<rparr>) key0 = Some t2 \<and>
     aiHistory t2 = aiHistory task_mid \<and>
     userId t2 = userId task_mid \<and> completed t2 = completed task_mid \<and>
     voiceReminder t2 = voiceReminder task_mid \<and> timerSession t2 = timerSession task_mid \<and>
     created_at t2 = created_at task_mid"
  using undo_redo_keep_history [where payload = "\<lparr>AIHistoryMove.taskId = tid0\<rparr>"
      and k = key0 and db = db_mid and t = task_mid and now = 9]
  by (simp add: oid_tid0 db_mid_key0)

end
